theory Spec2Isabelle
  imports Main "HOL-Library.Char_ord" "HOL-Library.AList" "HOL-Library.Sublist"
begin

section \<open>Strings\<close>

text \<open>
  A Python \<open>str\<close> is modelled as a \<open>string\<close>; a \<open>char\<close> stands for the code
  point of the same number (0 to 255).  The character tests below are Python's
  \<open>str.isalnum\<close> and \<open>str.isdigit\<close> on one character.
\<close>

definition is_ascii_lower :: "char \<Rightarrow> bool" where
  "is_ascii_lower c = (CHR ''a'' \<le> c \<and> c \<le> CHR ''z'')"

definition is_ascii_upper :: "char \<Rightarrow> bool" where
  "is_ascii_upper c = (CHR ''A'' \<le> c \<and> c \<le> CHR ''Z'')"

definition is_ascii_digit :: "char \<Rightarrow> bool" where
  "is_ascii_digit c = (CHR ''0'' \<le> c \<and> c \<le> CHR ''9'')"

definition newline :: char where
  "newline = CHR 0x0A"

text \<open>
  \<open>c.isdigit()\<close>: the ASCII digits and, below 256, the superscript digits
  U+00B2, U+00B3 and U+00B9.
\<close>

definition isdigit :: "char \<Rightarrow> bool" where
  "isdigit c = (is_ascii_digit c \<or> c = CHR 0xB2 \<or> c = CHR 0xB3 \<or> c = CHR 0xB9)"

text \<open>
  \<open>c.isalnum()\<close>.  The text of \<open>validate_package_name\<close> calls it only on the first
  and the last character of a name that has already matched the regular expression,
  that is on a character of the class or on a newline; there it is the ASCII test.
\<close>

definition isalnum :: "char \<Rightarrow> bool" where
  "isalnum c = (is_ascii_lower c \<or> is_ascii_upper c \<or> is_ascii_digit c)"

section \<open>Exceptions\<close>

text \<open>
  The exceptions that leave a call: \<open>OSError\<close> from the file system or the network,
  \<open>SyntaxError\<close> from importing a file that is not a Python module.
\<close>

datatype exn = OSError | SyntaxError

section \<open>utils/validator.py\<close>

text \<open>
  The file as shipped opens with two double quotes where the three of the module's
  docstring were meant, so it does not parse: importing \<open>syzygia.utils.validator\<close>
  raises \<open>SyntaxError\<close> (and so does importing the package \<open>syzygia.utils\<close>, whose
  \<open>__init__\<close> imports it), and none of its functions is ever defined.
\<close>

definition import_validator :: "exn + unit" where
  "import_validator = Inl SyntaxError"

text \<open>
  The definitions ending in \<open>_body\<close> are the texts of the functions as the file
  writes them.  They never run; a call of a function of the module is the import
  followed by the body.
\<close>

text \<open>The character class \<open>[a-zA-Z0-9@._+-]\<close>.\<close>

definition name_char :: "char \<Rightarrow> bool" where
  "name_char c = (is_ascii_lower c \<or> is_ascii_upper c \<or> is_ascii_digit c \<or>
     c = CHR ''@'' \<or> c = CHR ''.'' \<or> c = CHR ''_'' \<or> c = CHR ''+'' \<or> c = CHR ''-'')"

text \<open>The character class \<open>[a-zA-Z0-9._+:~-]\<close>.\<close>

definition version_char :: "char \<Rightarrow> bool" where
  "version_char c = (is_ascii_lower c \<or> is_ascii_upper c \<or> is_ascii_digit c \<or>
     c = CHR ''.'' \<or> c = CHR ''_'' \<or> c = CHR ''+'' \<or> c = CHR '':'' \<or> c = CHR ''~'' \<or>
     c = CHR ''-'')"

text \<open>
  \<open>re.match(r'^[cls]+$', s)\<close> for a character class that does not hold the
  newline: one or more characters of the class, up to the end of the string or up to
  a newline that is the last character of the string (Python's \<open>$\<close> matches there
  too).
\<close>

definition re_match_plus :: "(char \<Rightarrow> bool) \<Rightarrow> string \<Rightarrow> bool" where
  "re_match_plus cls s =
     (let body = (if s \<noteq> [] \<and> last s = newline then butlast s else s)
      in body \<noteq> [] \<and> list_all cls body)"

definition validate_package_name_body :: "string \<Rightarrow> bool \<times> string" where
  "validate_package_name_body name =
     (if name = [] then (False, ''Package name cannot be empty'')
      else if \<not> re_match_plus name_char name then
        (False, ''Package name contains invalid characters. Only alphanumeric, @, ., _, +, - are allowed.'')
      else if \<not> isalnum (hd name) then
        (False, ''Package name must start with an alphanumeric character'')
      else if \<not> (isalnum (last name) \<or> last name = CHR ''_'') then
        (False, ''Package name must end with an alphanumeric character or underscore'')
      else (True, ''''))"

definition validate_package_version_body :: "string \<Rightarrow> bool \<times> string" where
  "validate_package_version_body version =
     (if version = [] then (False, ''Version cannot be empty'')
      else if \<not> isdigit (hd version) then (False, ''Version must start with a digit'')
      else if \<not> re_match_plus version_char version then
        (False, ''Version contains invalid characters'')
      else (True, ''''))"

definition validate_package_name :: "string \<Rightarrow> exn + bool \<times> string" where
  "validate_package_name name =
     (case import_validator of
        Inl e \<Rightarrow> Inl e
      | Inr _ \<Rightarrow> Inr (validate_package_name_body name))"

definition validate_package_version :: "string \<Rightarrow> exn + bool \<times> string" where
  "validate_package_version version =
     (case import_validator of
        Inl e \<Rightarrow> Inl e
      | Inr _ \<Rightarrow> Inr (validate_package_version_body version))"

section \<open>package.py: Package\<close>

record package =
  name :: string
  version :: string
  description :: string
  depends :: "string list"
  provides :: "string list"
  conflicts :: "string list"
  size :: int
  url :: string
  packager :: string

text \<open>\<open>x or []\<close> for an optional list argument whose default is \<open>None\<close>.\<close>

definition or_empty :: "'a list option \<Rightarrow> 'a list" where
  "or_empty x = (case x of None \<Rightarrow> [] | Some xs \<Rightarrow> xs)"

text \<open>\<open>Package.__init__\<close>: every argument is stored as it is given.\<close>

definition Package ::
  "string \<Rightarrow> string \<Rightarrow> string \<Rightarrow> string list option \<Rightarrow> string list option \<Rightarrow>
   string list option \<Rightarrow> int \<Rightarrow> string \<Rightarrow> string \<Rightarrow> package" where
  "Package n v d deps provs confs sz u p =
     \<lparr>name = n, version = v, description = d, depends = or_empty deps,
      provides = or_empty provs, conflicts = or_empty confs, size = sz, url = u,
      packager = p\<rparr>"

section \<open>package.py: PackageManager\<close>

text \<open>
  \<open>installed_pkgs\<close>, the in-memory package database, is a Python dictionary: an
  association list with distinct keys in insertion order.  \<open>d[k] = v\<close> is
  \<open>AList.update k v d\<close> (in place for a key that is present, at the end otherwise)
  and \<open>del d[k]\<close> is \<open>AList.delete k d\<close>.
\<close>

type_synonym db = "(string \<times> package) list"

definition installed :: "db \<Rightarrow> string \<Rightarrow> bool" where
  "installed d k = (k \<in> set (map fst d))"

text \<open>
  The file system is outside the model.  What a request sees of it is given per
  iteration of the request's loop (the position of the name in \<open>package_names\<close>):
  \<^item> \<open>path_str f\<close> is the text of the path \<open>self.cache_dir / f\<close>;
  \<^item> \<open>touch_raises i f\<close>: creating the file \<open>f\<close> in the cache directory raises;
  \<^item> \<open>store_raises i n\<close>: creating the directory of package \<open>n\<close> under
    \<open>db_path/local\<close> or writing its \<open>desc\<close> file raises;
  \<^item> \<open>rmtree_error i n = Some e\<close>: the directory of package \<open>n\<close> exists and
    \<open>shutil.rmtree\<close> raises on it, with message \<open>e\<close>.
\<close>

record pm_env =
  path_str :: "string \<Rightarrow> string"
  touch_raises :: "nat \<Rightarrow> string \<Rightarrow> bool"
  store_raises :: "nat \<Rightarrow> string \<Rightarrow> bool"
  rmtree_error :: "nat \<Rightarrow> string \<Rightarrow> string option"

text \<open>
  \<open>pkg_file.name\<close>, the last component of \<open>self.cache_dir / f\<close>, for a file name
  \<open>f\<close> that ends in \<open>-1.0.0.pkg.tar.zst\<close>: what follows the last \<open>/\<close> of \<open>f\<close>.
\<close>

definition path_name :: "string \<Rightarrow> string" where
  "path_name f = rev (takeWhile (\<lambda>c. c \<noteq> CHR ''/'') (rev f))"

text \<open>\<open>s.split('-')[0]\<close>.\<close>

definition split_dash_first :: "string \<Rightarrow> string" where
  "split_dash_first s = takeWhile (\<lambda>c. c \<noteq> CHR ''-'') s"

text \<open>
  \<open>_install_package\<close>.  The dictionary is updated before the directory and the \<open>desc\<close>
  file are written, so an exception there leaves the new entry in the dictionary.
\<close>

definition install_package ::
  "pm_env \<Rightarrow> nat \<Rightarrow> db \<Rightarrow> string \<Rightarrow> (exn + bool) \<times> db \<times> string list" where
  "install_package env i d pkg_file =
     (let pkg_name = split_dash_first (path_name pkg_file);
          pkg = Package pkg_name ''1.0.0'' (''Installed from '' @ path_str env pkg_file)
                  (Some []) (Some [pkg_name]) (Some []) 0 [] [];
          d1 = AList.update pkg_name pkg d;
          out1 = [''Installing package from '' @ path_str env pkg_file]
      in if store_raises env i pkg_name then (Inl OSError, d1, out1)
         else (Inr True, d1, out1 @ [''Successfully installed '' @ pkg_name]))"

text \<open>
  The loop of \<open>install\<close> from iteration \<open>i\<close> on, with the value of \<open>success\<close> so
  far.  The result is what the call returns or the exception that leaves it, the
  database, and the lines printed.
\<close>

fun install_loop ::
  "pm_env \<Rightarrow> nat \<Rightarrow> bool \<Rightarrow> db \<Rightarrow> string list \<Rightarrow> (exn + bool) \<times> db \<times> string list" where
  "install_loop env i success d [] = (Inr success, d, [])"
| "install_loop env i success d (pkg_name # rest) =
     (if installed d pkg_name then
        (case install_loop env (Suc i) success d rest of
           (r, d', out) \<Rightarrow> (r, d', (''Package '' @ pkg_name @ '' is already installed'') # out))
      else if touch_raises env i (pkg_name @ ''-1.0.0.pkg.tar.zst'') then (Inl OSError, d, [])
      else
        (case install_package env i d (pkg_name @ ''-1.0.0.pkg.tar.zst'') of
           (Inl e, d1, out1) \<Rightarrow> (Inl e, d1, out1)
         | (Inr ok, d1, out1) \<Rightarrow>
             (case install_loop env (Suc i) (if ok then success else False) d1 rest of
                (r, d', out) \<Rightarrow>
                  (r, d', out1 @
                     [if ok then ''Successfully installed '' @ pkg_name
                      else ''Failed to install package: '' @ pkg_name] @ out))))"

definition install ::
  "pm_env \<Rightarrow> db \<Rightarrow> string list \<Rightarrow> bool \<Rightarrow> (exn + bool) \<times> db \<times> string list" where
  "install env d package_names nodeps = install_loop env 0 True d package_names"

definition find_dependents :: "db \<Rightarrow> string \<Rightarrow> string list" where
  "find_dependents d package_name =
     map name (filter (\<lambda>pkg. package_name \<in> set (depends pkg)) (map snd d))"

definition remove_package :: "pm_env \<Rightarrow> nat \<Rightarrow> db \<Rightarrow> string \<Rightarrow> bool \<times> db \<times> string list" where
  "remove_package env i d package_name =
     (case rmtree_error env i package_name of
        Some e \<Rightarrow> (False, d, [''Error removing package '' @ package_name @ '': '' @ e])
      | None \<Rightarrow> (True, AList.delete package_name d, []))"

fun remove_loop ::
  "pm_env \<Rightarrow> bool \<Rightarrow> nat \<Rightarrow> bool \<Rightarrow> db \<Rightarrow> string list \<Rightarrow> bool \<times> db \<times> string list" where
  "remove_loop env nodeps i success d [] = (success, d, [])"
| "remove_loop env nodeps i success d (pkg_name # rest) =
     (if \<not> installed d pkg_name then
        (case remove_loop env nodeps (Suc i) success d rest of
           (r, d', out) \<Rightarrow> (r, d', (''Package '' @ pkg_name @ '' is not installed'') # out))
      else if \<not> nodeps \<and> find_dependents d pkg_name \<noteq> [] then
        (case remove_loop env nodeps (Suc i) False d rest of
           (r, d', out) \<Rightarrow>
             (r, d', (''Cannot remove '' @ pkg_name @ '': the following packages depend on it:'')
                     # map (\<lambda>dep. ''  '' @ dep) (find_dependents d pkg_name) @ out))
      else
        (case remove_package env i d pkg_name of
           (ok, d1, out1) \<Rightarrow>
             (case remove_loop env nodeps (Suc i) (if ok then success else False) d1 rest of
                (r, d', out) \<Rightarrow>
                  (r, d', out1 @
                     [if ok then ''Successfully removed '' @ pkg_name
                      else ''Failed to remove package: '' @ pkg_name] @ out))))"

definition remove_pkgs ::
  "pm_env \<Rightarrow> db \<Rightarrow> string list \<Rightarrow> bool \<Rightarrow> bool \<times> db \<times> string list" where
  "remove_pkgs env d package_names nodeps = remove_loop env nodeps 0 True d package_names"

text \<open>\<open>update\<close>: prints one line and returns \<open>True\<close>.\<close>

definition update_db :: "bool \<times> string list" where
  "update_db = (True, [''Updating package databases...''])"

fun upgrade_loop ::
  "pm_env \<Rightarrow> db \<Rightarrow> string list \<Rightarrow> (exn + unit) \<times> db \<times> string list" where
  "upgrade_loop env d [] = (Inr (), d, [])"
| "upgrade_loop env d (pkg_name # rest) =
     (if \<not> installed d pkg_name then
        (case upgrade_loop env d rest of
           (r, d', out) \<Rightarrow> (r, d', (''Package '' @ pkg_name @ '' is not installed'') # out))
      else
        (case install env d [pkg_name] False of
           (Inl e, d1, out1) \<Rightarrow>
             (Inl e, d1, (''Checking for updates for '' @ pkg_name @ ''...'') # out1)
         | (Inr _, d1, out1) \<Rightarrow>
             (case upgrade_loop env d1 rest of
                (r, d', out) \<Rightarrow>
                  (r, d', (''Checking for updates for '' @ pkg_name @ ''...'') # out1 @ out))))"

text \<open>
  \<open>upgrade\<close>: \<open>package_names\<close> is \<open>None\<close> or a list; only \<open>None\<close> stands for every
  installed package.
\<close>

definition upgrade ::
  "pm_env \<Rightarrow> db \<Rightarrow> string list option \<Rightarrow> (exn + bool) \<times> db \<times> string list" where
  "upgrade env d package_names =
     (let names = (case package_names of None \<Rightarrow> map fst d | Some ns \<Rightarrow> ns);
          success = True
      in case upgrade_loop env d names of
           (Inl e, d', out) \<Rightarrow> (Inl e, d', snd update_db @ out)
         | (Inr _, d', out) \<Rightarrow> (Inr success, d', snd update_db @ out))"

text \<open>
  cli.py, \<open>SyzygiaCLI.upgrade\<close>: \<open>packages\<close> is the list of the positional
  arguments (\<open>nargs='*'\<close>, documented as "Packages to upgrade (default: all)"), the
  empty list when none is given; the exit status is 0 for \<open>True\<close>.
\<close>

definition cli_upgrade ::
  "pm_env \<Rightarrow> db \<Rightarrow> string list \<Rightarrow> (exn + int) \<times> db \<times> string list" where
  "cli_upgrade env d packages =
     (case upgrade env d (Some packages) of
        (Inl e, d', out) \<Rightarrow> (Inl e, d', out)
      | (Inr ok, d', out) \<Rightarrow> (Inr (if ok then 0 else 1), d', out))"

section \<open>repo.py: Repository\<close>

record repository =
  repo_name :: string
  repo_url :: string
  sig_level :: string
  packages :: "(string \<times> (string \<times> string) list) list"
  initialized :: bool

definition Repository :: "string \<Rightarrow> string \<Rightarrow> string \<Rightarrow> repository" where
  "Repository n u lvl =
     \<lparr>repo_name = n, repo_url = u, sig_level = lvl, packages = [], initialized = False\<rparr>"

text \<open>
  The state of the signature of the repository's database at its URL, which a call
  of \<open>initialize\<close> could look at.
\<close>

datatype signature_state = SigMissing | SigInvalid | SigValid

text \<open>
  \<open>Repository.initialize\<close>, run where the database's signature is in state \<open>sg\<close>.
  The body reads neither the signature nor \<open>sig_level\<close>: loading the database is a
  \<open>TODO\<close> comment.
\<close>

definition initialize :: "signature_state \<Rightarrow> repository \<Rightarrow> bool \<times> repository" where
  "initialize sg r =
     (if initialized r then (True, r) else (True, r\<lparr>initialized := True\<rparr>))"

section \<open>The network and the files of a download\<close>

text \<open>
  The files are a map from paths to contents.  A response to \<open>requests.get\<close> is
  \<^item> \<open>ConnectionError\<close>: the call raises;
  \<^item> \<open>HttpError\<close>: \<open>raise_for_status\<close> raises;
  \<^item> \<open>Body chunks complete\<close>: the chunks that \<open>iter_content\<close> yields, after which
    the stream ends (\<open>complete\<close>) or raises.
  The network is the function \<open>http_get\<close> that gives the response to the \<open>k\<close>-th
  request of a download, made to a URL.
\<close>

type_synonym files = "string \<Rightarrow> string option"

datatype response = ConnectionError | HttpError | Body "string list" bool

type_synonym network = "nat \<Rightarrow> string \<Rightarrow> response"

text \<open>The effects of a download on the outside: requests and sleeps, in order.\<close>

datatype event = Get string | Sleep nat

definition lstrip_slash :: "string \<Rightarrow> string" where
  "lstrip_slash s = dropWhile (\<lambda>c. c = CHR ''/'') s"

definition rstrip_slash :: "string \<Rightarrow> string" where
  "rstrip_slash s = rev (dropWhile (\<lambda>c. c = CHR ''/'') (rev s))"

text \<open>
  \<open>s.replace(pat, '')\<close> for a pattern that is not empty; \<open>k\<close> is the number of
  characters of a match still to be skipped.
\<close>

fun remove_all :: "string \<Rightarrow> nat \<Rightarrow> string \<Rightarrow> string" where
  "remove_all pat k [] = []"
| "remove_all pat k (c # cs) =
     (if 0 < k then remove_all pat (k - 1) cs
      else if prefix pat (c # cs) then remove_all pat (length pat - 1) cs
      else c # remove_all pat 0 cs)"

text \<open>\<open>os.path.join(a, b)\<close> on POSIX.\<close>

definition path_join :: "string \<Rightarrow> string \<Rightarrow> string" where
  "path_join a b =
     (if b \<noteq> [] \<and> hd b = CHR ''/'' then b
      else if a = [] \<or> last a = CHR ''/'' then a @ b
      else a @ ''/'' @ b)"

text \<open>
  \<open>os.makedirs(os.path.dirname(destination), exist_ok=True)\<close> raises when the
  destination has no directory part, since \<open>os.makedirs('')\<close> does.
\<close>

definition makedirs_raises :: "string \<Rightarrow> bool" where
  "makedirs_raises destination = (CHR ''/'' \<notin> set destination)"

section \<open>mirror.py: MirrorManager\<close>

text \<open>
  \<open>get_best_mirror\<close>: \<open>random.choice(self.mirrors)\<close> is the element at the index
  the random source draws below the length of the list (\<open>randbelow\<close>).
\<close>

definition get_best_mirror :: "(nat \<Rightarrow> nat) \<Rightarrow> string list \<Rightarrow> string option" where
  "get_best_mirror randbelow mirrors =
     (if mirrors = [] then None else Some (mirrors ! randbelow (length mirrors)))"

text \<open>
  \<open>_download_remote\<close>, as the \<open>k\<close>-th request: the destination is opened for
  writing once the response is there, each chunk is written as it comes, and nothing
  is removed when the stream raises.
\<close>

definition download_remote ::
  "network \<Rightarrow> nat \<Rightarrow> string \<Rightarrow> string \<Rightarrow> string \<Rightarrow> files \<Rightarrow> (exn + bool) \<times> files \<times> event list" where
  "download_remote http_get k base_url file_path destination fs =
     (let u = rstrip_slash base_url @ ''/'' @ lstrip_slash file_path
      in if makedirs_raises destination then (Inl OSError, fs, [])
         else
           (case http_get k u of
              ConnectionError \<Rightarrow> (Inl OSError, fs, [Get u])
            | HttpError \<Rightarrow> (Inl OSError, fs, [Get u])
            | Body chunks complete \<Rightarrow>
                (if complete then (Inr True, fs(destination \<mapsto> concat chunks), [Get u])
                 else (Inl OSError, fs(destination \<mapsto> concat chunks), [Get u]))))"

text \<open>\<open>_download_local\<close>: \<open>shutil.copy2\<close> raises when the source is missing or is the destination.\<close>

definition download_local ::
  "string \<Rightarrow> string \<Rightarrow> string \<Rightarrow> files \<Rightarrow> (exn + bool) \<times> files \<times> event list" where
  "download_local base_path file_path destination fs =
     (let src_path = path_join (remove_all ''file://'' 0 base_path) (lstrip_slash file_path)
      in if makedirs_raises destination then (Inl OSError, fs, [])
         else
           (case fs src_path of
              None \<Rightarrow> (Inl OSError, fs, [])
            | Some content \<Rightarrow>
                (if src_path = destination then (Inl OSError, fs, [])
                 else (Inr True, fs(destination \<mapsto> content), []))))"

text \<open>
  The loop of \<open>MirrorManager.download_file\<close> from the \<open>k\<close>-th mirror on: the first
  mirror that does not raise ends it, an exception moves it on to the next mirror.
  The result holds, besides the value returned and the files, the mirrors the loop
  tried and what it did on the outside.
\<close>

fun mirror_download_loop ::
  "network \<Rightarrow> nat \<Rightarrow> string list \<Rightarrow> string \<Rightarrow> string \<Rightarrow> files \<Rightarrow>
   bool \<times> files \<times> string list \<times> event list" where
  "mirror_download_loop http_get k [] file_path destination fs = (False, fs, [], [])"
| "mirror_download_loop http_get k (mirror # rest) file_path destination fs =
     (case (if prefix ''file://'' mirror then download_local mirror file_path destination fs
            else download_remote http_get k mirror file_path destination fs) of
        (Inr b, fs1, evs) \<Rightarrow> (b, fs1, [mirror], evs)
      | (Inl e, fs1, evs) \<Rightarrow>
          (case mirror_download_loop http_get (Suc k) rest file_path destination fs1 of
             (b, fs2, tried, evs2) \<Rightarrow> (b, fs2, mirror # tried, evs @ evs2)))"

definition mirror_download_file ::
  "network \<Rightarrow> string list \<Rightarrow> string \<Rightarrow> string \<Rightarrow> files \<Rightarrow>
   bool \<times> files \<times> string list \<times> event list" where
  "mirror_download_file http_get mirrors file_path destination fs =
     mirror_download_loop http_get 0 mirrors file_path destination fs"

section \<open>The retry schedule of the specification\<close>


section \<open>The world of a request, seen from a later iteration\<close>

text \<open>
  \<open>later k env\<close> is the file system as iteration \<open>i + k\<close> of a request sees it,
  numbered from \<open>i\<close>: the loop of a request from its \<open>k\<close>-th name on is the loop of
  a request for the remaining names in \<open>later k env\<close>.
\<close>

definition later :: "nat \<Rightarrow> pm_env \<Rightarrow> pm_env" where
  "later k env =
     env\<lparr>touch_raises := (\<lambda>i. touch_raises env (i + k)),
         store_raises := (\<lambda>i. store_raises env (i + k)),
         rmtree_error := (\<lambda>i. rmtree_error env (i + k))\<rparr>"

text \<open>A file system on which nothing raises, for the examples.\<close>

definition quiet_fs :: pm_env where
  "quiet_fs =
     \<lparr>path_str = (\<lambda>f. ''/var/cache/syzygia/'' @ f), touch_raises = (\<lambda>i f. False),
      store_raises = (\<lambda>i n. False), rmtree_error = (\<lambda>i n. None)\<rparr>"

text \<open>Three installed packages: \<open>foo\<close> depends on \<open>bar\<close>; nothing depends on \<open>baz\<close>.\<close>

definition three_pkgs :: db where
  "three_pkgs =
     [(''foo'', Package ''foo'' ''1.0'' [] (Some [''bar'']) None None 0 [] []),
      (''bar'', Package ''bar'' ''1.0'' [] None None None 0 [] []),
      (''baz'', Package ''baz'' ''1.0'' [] None None None 0 [] [])]"

text \<open>Two installed packages: \<open>foo\<close> depends on \<open>libbar\<close>, a capability that \<open>bar\<close> provides.\<close>

definition capability_pkgs :: db where
  "capability_pkgs =
     [(''foo'', Package ''foo'' ''1.0'' [] (Some [''libbar'']) None None 0 [] []),
      (''bar'', Package ''bar'' ''1.0'' [] None (Some [''libbar'']) None 0 [] [])]"

text \<open>A file system on which writing the database entry of package \<open>b\<close> raises.\<close>

definition b_unwritable :: pm_env where
  "b_unwritable = quiet_fs\<lparr>store_raises := (\<lambda>i n. n = ''b'')\<rparr>"

text \<open>A network on which every connection fails, and one that breaks off after \<open>ab\<close>.\<close>

definition dead_network :: network where
  "dead_network = (\<lambda>k u. ConnectionError)"

definition broken_stream :: network where
  "broken_stream = (\<lambda>k u. Body [''ab''] False)"

section \<open>Validation of names and versions\<close>

text \<open>
  Claim C8 at an input where the code departs from it.  The name \<open>foo\<close> is not empty,
  has all its characters in \<open>[A-Za-z0-9@._+-]\<close> and starts and ends with an
  alphanumeric character, so package-name validation is to accept it.  The module
  that holds \<open>validate_package_name\<close> does not parse (its first line is two double
  quotes, not the three of a docstring), so the call ends in \<open>SyntaxError\<close> at the
  import, for this name and for every other, and no name is ever accepted.
\<close>

theorem validator_module_does_not_load:
  "validate_package_name ''foo'' = Inl SyntaxError \<and> validate_package_name n = Inl SyntaxError"
  by (simp add: validate_package_name_def import_validator_def)

text \<open>
  Claim C9, as the code has it: the constructor of \<open>Package\<close> checks nothing.  A
  package carries exactly the version string it was constructed with, whatever that
  string is.
\<close>

theorem package_keeps_any_version:
  "version (Package n v d deps provs confs sz u p) = v"
  by (simp add: Package_def)

text \<open>
  Claim C9 as the specification states it has malformed versions rejected when a
  \<open>Package\<close> is constructed.  A package is constructed with the empty version, and
  one with the version \<open>v1.0\<close>, which starts with a letter.
\<close>

theorem package_accepts_malformed_version_counterexample:
  "version (Package ''x'' [] [] None None None 0 [] []) = [] \<and>
   version (Package ''x'' ''v1.0'' [] None None None 0 [] []) = ''v1.0'' \<and>
   \<not> isdigit (hd ''v1.0'')"
  by (simp add: Package_def isdigit_def is_ascii_digit_def)

section \<open>Repositories\<close>

text \<open>
  Claim C5, as the code has it: initializing a repository always succeeds, whatever
  its signature level and whatever the state of the signature of its database.  It
  returns \<open>True\<close> and changes nothing but the mark that the repository is
  initialized: the package catalog and the signature level stay as they were, and a
  new repository has an empty catalog.
\<close>

theorem initialize_always_succeeds:
  "initialize sg r = (True, r\<lparr>initialized := True\<rparr>) \<and>
   initialize sg (Repository n u lvl) = (True, (Repository n u lvl)\<lparr>initialized := True\<rparr>) \<and>
   fst (initialize sg r) \<and> packages (snd (initialize sg r)) = packages r \<and>
   sig_level (snd (initialize sg r)) = sig_level r"
  by (simp add: initialize_def Repository_def)

text \<open>
  Claim C5 as the specification states it has the initialization of a repository
  whose signature level is \<open>Required\<close> fail when the signature is missing or invalid.
  It returns \<open>True\<close> in both cases.
\<close>

theorem initialize_required_unsigned_counterexample:
  "fst (initialize SigMissing (Repository ''core'' ''https://example.org/core'' ''Required'')) \<and>
   fst (initialize SigInvalid (Repository ''core'' ''https://example.org/core'' ''Required'')) \<and>
   packages (snd (initialize SigMissing
     (Repository ''core'' ''https://example.org/core'' ''Required''))) = []"
  by (simp add: initialize_def Repository_def)

section \<open>Upgrading\<close>

lemma upgrade_None: "upgrade env d None = upgrade env d (Some (map fst d))"
  by (simp add: upgrade_def)

text \<open>
  Claim C3 at the input where the code departs from it.  With one package \<open>foo\<close>
  installed, the \<open>upgrade\<close> command with no package name passes the empty list, and
  \<open>upgrade\<close> looks at no package at all, whereas \<open>upgrade\<close> with the list of the
  installed names, like \<open>upgrade\<close> with \<open>None\<close>, checks \<open>foo\<close>.
\<close>

theorem upgrade_empty_list_checks_nothing:
  "cli_upgrade env [(''foo'', p)] [] =
     (Inr 0, [(''foo'', p)], [''Updating package databases...'']) \<and>
   cli_upgrade env [(''foo'', p)] [''foo''] =
     (Inr 0, [(''foo'', p)],
      [''Updating package databases...'', ''Checking for updates for foo...'',
       ''Package foo is already installed'']) \<and>
   upgrade env [(''foo'', p)] None = upgrade env [(''foo'', p)] (Some [''foo''])"
  by (simp add: cli_upgrade_def upgrade_def update_db_def install_def installed_def)

section \<open>The loop of a removal\<close>










section \<open>The loop of an installation\<close>


lemma install_package_ok:
  "fst (install_package env i d f) \<noteq> Inr False"
  by (simp add: install_package_def Let_def)







section \<open>Requests for several packages\<close>


text \<open>The definitions that an example request unfolds.\<close>

lemmas ex_defs = three_pkgs_def quiet_fs_def b_unwritable_def later_def remove_pkgs_def install_def
  installed_def find_dependents_def remove_package_def install_package_def Package_def or_empty_def
  path_name_def split_dash_first_def split_beta Let_def



section \<open>Removal and dependents\<close>

lemma find_dependents_empty:
  "find_dependents d p = [] \<longleftrightarrow> (\<forall>q \<in> set (map snd d). p \<notin> set (depends q))"
  by (auto simp add: find_dependents_def filter_empty_conv)

text \<open>
  Claim C2, as the code has it.  For an installed package \<open>p\<close>, the removal of \<open>p\<close>
  without \<open>nodeps\<close> is blocked (it returns \<open>False\<close>, leaves the database as it is and
  prints the names of the dependents) if and only if some installed package, \<open>p\<close>
  itself included, has the name \<open>p\<close> as an entry of its \<open>depends\<close> list; what \<open>p\<close>
  provides is not looked at.  When no package names \<open>p\<close>, the removal goes on as it
  does with \<open>nodeps\<close>; with \<open>nodeps\<close> the dependents are not looked at, and \<open>p\<close> is
  removed whenever deleting its directory does not raise.
\<close>

theorem remove_blocked_iff_name_in_depends:
  assumes "installed d p"
  shows "(remove_pkgs env d [p] False =
       (False, d,
        (''Cannot remove '' @ p @ '': the following packages depend on it:'') #
          map (\<lambda>dep. ''  '' @ dep)
            (map name (filter (\<lambda>q. p \<in> set (depends q)) (map snd d))))
      \<longleftrightarrow> (\<exists>q \<in> set (map snd d). p \<in> set (depends q))) \<and>
     ((\<forall>q \<in> set (map snd d). p \<notin> set (depends q)) \<longrightarrow>
        remove_pkgs env d [p] False = remove_pkgs env d [p] True) \<and>
     (rmtree_error env 0 p = None \<longrightarrow>
        remove_pkgs env d [p] True =
          (True, AList.delete p d, [''Successfully removed '' @ p]))"
proof (cases "find_dependents d p = []")
  case True
  then have none: "\<forall>q \<in> set (map snd d). p \<notin> set (depends q)"
    by (simp add: find_dependents_empty)
  have same: "remove_pkgs env d [p] False = remove_pkgs env d [p] True"
    using assms True by (simp add: remove_pkgs_def)
  have not_blocked: "remove_pkgs env d [p] False \<noteq>
       (False, d,
        (''Cannot remove '' @ p @ '': the following packages depend on it:'') #
          map (\<lambda>dep. ''  '' @ dep)
            (map name (filter (\<lambda>q. p \<in> set (depends q)) (map snd d))))"
    using assms True
    by (simp add: remove_pkgs_def remove_package_def split_beta split: option.splits)
  have forced: "rmtree_error env 0 p = None \<longrightarrow>
        remove_pkgs env d [p] True =
          (True, AList.delete p d, [''Successfully removed '' @ p])"
    using assms by (simp add: remove_pkgs_def remove_package_def)
  show ?thesis
    using none same not_blocked forced by blast
next
  case False
  then have some: "\<exists>q \<in> set (map snd d). p \<in> set (depends q)"
    using find_dependents_empty [of d p] by blast
  have blocked: "remove_pkgs env d [p] False =
       (False, d,
        (''Cannot remove '' @ p @ '': the following packages depend on it:'') #
          map (\<lambda>dep. ''  '' @ dep)
            (map name (filter (\<lambda>q. p \<in> set (depends q)) (map snd d))))"
    using assms False by (simp add: remove_pkgs_def) (simp add: find_dependents_def)
  have forced: "rmtree_error env 0 p = None \<longrightarrow>
        remove_pkgs env d [p] True =
          (True, AList.delete p d, [''Successfully removed '' @ p])"
    using assms by (simp add: remove_pkgs_def remove_package_def)
  show ?thesis
    using some blocked forced by blast
qed

theorem remove_blocked_iff_name_in_depends_witness:
  "installed three_pkgs ''bar'' \<and>
   remove_pkgs quiet_fs three_pkgs [''bar''] False =
     (False, three_pkgs,
      [''Cannot remove bar: the following packages depend on it:'', ''  foo'']) \<and>
   rmtree_error quiet_fs 0 ''bar'' = None \<and>
   remove_pkgs quiet_fs three_pkgs [''bar''] True =
     (True, AList.delete ''bar'' three_pkgs, [''Successfully removed bar'']) \<and>
   installed three_pkgs ''baz'' \<and>
   remove_pkgs quiet_fs three_pkgs [''baz''] False = remove_pkgs quiet_fs three_pkgs [''baz''] True"
proof -
  have i: "installed three_pkgs ''bar''" "installed three_pkgs ''baz''"
    by (simp_all add: ex_defs)
  have q: "rmtree_error quiet_fs 0 ''bar'' = None"
    by (simp add: quiet_fs_def)
  have dep: "\<exists>q \<in> set (map snd three_pkgs). ''bar'' \<in> set (depends q)"
    by (simp add: three_pkgs_def Package_def or_empty_def)
  have nodep: "\<forall>q \<in> set (map snd three_pkgs). ''baz'' \<notin> set (depends q)"
    by (simp add: three_pkgs_def Package_def or_empty_def)
  have names: "map name (filter (\<lambda>q. ''bar'' \<in> set (depends q)) (map snd three_pkgs)) = [''foo'']"
    by (simp add: three_pkgs_def Package_def or_empty_def)
  show ?thesis
    using i q dep nodep names
      remove_blocked_iff_name_in_depends [OF i(1), of quiet_fs]
      remove_blocked_iff_name_in_depends [OF i(2), of quiet_fs]
    by simp
qed

text \<open>
  Claim C2 as the specification states it has the removal blocked when an installed
  package depends on a capability that \<open>p\<close> provides.  With \<open>foo\<close> depending on
  \<open>libbar\<close>, which \<open>bar\<close> provides, the removal of \<open>bar\<close> without \<open>nodeps\<close> succeeds
  and removes \<open>bar\<close>.
\<close>

theorem remove_ignores_provided_capabilities_counterexample:
  "installed capability_pkgs ''bar'' \<and>
   ''libbar'' \<in> set (provides (the (map_of capability_pkgs ''bar''))) \<and>
   ''libbar'' \<in> set (depends (the (map_of capability_pkgs ''foo''))) \<and>
   fst (remove_pkgs quiet_fs capability_pkgs [''bar''] False) \<and>
   \<not> installed (fst (snd (remove_pkgs quiet_fs capability_pkgs [''bar''] False))) ''bar''"
  by (simp add: ex_defs capability_pkgs_def)

section \<open>Installing twice\<close>

text \<open>
  Claim C10.  Installing a name that is installed leaves the database as it is, its
  entry included, and returns \<open>True\<close>.  On a file system that answers the second
  request as it answered the first, installing a name a second time leaves the
  database as the first installation left it, and returns \<open>True\<close> when the first
  did.
\<close>

theorem install_is_idempotent:
  "(installed d n \<longrightarrow>
      install env d [n] b = (Inr True, d, [''Package '' @ n @ '' is already installed''])) \<and>
   fst (snd (install env (fst (snd (install env d [n] b))) [n] b)) =
     fst (snd (install env d [n] b)) \<and>
   (fst (install env d [n] b) = Inr True \<longrightarrow>
      fst (install env (fst (snd (install env d [n] b))) [n] b) = Inr True)"
  by (auto simp add: install_def install_package_def Let_def split_beta split: if_splits)

theorem install_is_idempotent_witness:
  "installed (fst (snd (install quiet_fs [] [''foo''] False))) ''foo'' \<and>
   fst (install quiet_fs [] [''foo''] False) = Inr True \<and>
   install quiet_fs (fst (snd (install quiet_fs [] [''foo''] False))) [''foo''] False =
     (Inr True, fst (snd (install quiet_fs [] [''foo''] False)),
      [''Package foo is already installed''])"
proof -
  let ?d = "fst (snd (install quiet_fs [] [''foo''] False))"
  have i: "installed ?d ''foo''"
    by (simp add: ex_defs)
  have r: "fst (install quiet_fs [] [''foo''] False) = Inr True"
    by (simp add: ex_defs)
  show ?thesis
    using i r install_is_idempotent [of ?d "''foo''" quiet_fs False]
      install_is_idempotent [of "[]" "''foo''" quiet_fs False]
    by simp
qed

section \<open>The loop over the mirrors\<close>

lemma download_remote_result:
  "fst (download_remote net k m f dest fs) = Inl OSError \<or>
   fst (download_remote net k m f dest fs) = Inr True"
  by (simp add: download_remote_def Let_def split: response.splits)

lemma download_local_result:
  "fst (download_local m f dest fs) = Inl OSError \<or> fst (download_local m f dest fs) = Inr True"
  by (simp add: download_local_def Let_def split: option.splits)

lemma download_remote_events:
  "snd (snd (download_remote net k m f dest fs)) = [] \<or>
   snd (snd (download_remote net k m f dest fs)) =
     [Get (rstrip_slash m @ ''/'' @ lstrip_slash f)]"
  by (simp add: download_remote_def Let_def split: response.splits)

lemma download_local_events: "snd (snd (download_local m f dest fs)) = []"
  by (simp add: download_local_def Let_def split: option.splits)

text \<open>One step of the loop, whatever the scheme of the mirror.\<close>

lemma mirror_step_cases:
  obtains (ok) fs1 evs where
      "(if prefix ''file://'' m then download_local m f dest fs
        else download_remote net k m f dest fs) = (Inr True, fs1, evs)"
      "evs = [] \<or> evs = [Get (rstrip_slash m @ ''/'' @ lstrip_slash f)]"
    | (raised) fs1 evs where
      "(if prefix ''file://'' m then download_local m f dest fs
        else download_remote net k m f dest fs) = (Inl OSError, fs1, evs)"
      "evs = [] \<or> evs = [Get (rstrip_slash m @ ''/'' @ lstrip_slash f)]"
proof -
  let ?r = "if prefix ''file://'' m then download_local m f dest fs
        else download_remote net k m f dest fs"
  have res: "fst ?r = Inl OSError \<or> fst ?r = Inr True"
    using download_remote_result [of net k m f dest fs] download_local_result [of m f dest fs]
    by (cases "prefix ''file://'' m") simp_all
  have evs: "snd (snd ?r) = [] \<or> snd (snd ?r) = [Get (rstrip_slash m @ ''/'' @ lstrip_slash f)]"
    using download_remote_events [of net k m f dest fs] download_local_events [of m f dest fs]
    by (cases "prefix ''file://'' m") simp_all
  obtain r fs1 es where r: "?r = (r, fs1, es)"
    by (cases ?r) auto
  show thesis
    using res evs r ok [of fs1 es] raised [of fs1 es] by auto
qed

lemma mirror_loop_tried_prefix:
  "prefix (fst (snd (snd (mirror_download_loop net k ms f dest fs)))) ms"
proof (induction ms arbitrary: k fs)
  case Nil
  show ?case by simp
next
  case (Cons m ms)
  show ?case
  proof (cases rule: mirror_step_cases [of m f dest fs net k])
    case (ok fs1 evs)
    then show ?thesis by simp
  next
    case (raised fs1 evs)
    then show ?thesis
      using Cons.IH [of "Suc k" fs1] by (simp add: split_beta)
  qed
qed


lemma mirror_loop_first:
  "ms \<noteq> [] \<Longrightarrow> fst (snd (snd (mirror_download_loop net k ms f dest fs))) \<noteq> [] \<and>
     hd (fst (snd (snd (mirror_download_loop net k ms f dest fs)))) = hd ms"
proof (cases ms)
  case Nil
  then show "ms \<noteq> [] \<Longrightarrow> ?thesis" by simp
next
  case (Cons m ms')
  show ?thesis
  proof (cases rule: mirror_step_cases [of m f dest fs net k])
    case (ok fs1 evs)
    then show ?thesis using Cons by simp
  next
    case (raised fs1 evs)
    then show ?thesis using Cons by (simp add: split_beta)
  qed
qed



section \<open>Selecting a mirror\<close>

text \<open>
  Claim C4, as the code has it.  \<open>download_file\<close> takes the mirrors in the order of
  the configured list: the mirrors it tries are a prefix of the list, and the first
  one it tries is the first of the list.  \<open>get_best_mirror\<close> returns \<open>None\<close> for an
  empty list and otherwise the mirror at the index that the random source draws, a
  mirror of the list that depends on the draw.
\<close>

theorem mirrors_tried_in_list_order:
  "prefix (fst (snd (snd (mirror_download_file net ms f dest fs)))) ms \<and>
   (ms \<noteq> [] \<longrightarrow>
      fst (snd (snd (mirror_download_file net ms f dest fs))) \<noteq> [] \<and>
      hd (fst (snd (snd (mirror_download_file net ms f dest fs)))) = hd ms) \<and>
   get_best_mirror randbelow [] = None \<and>
   (ms \<noteq> [] \<longrightarrow> randbelow (length ms) < length ms \<longrightarrow>
      get_best_mirror randbelow ms = Some (ms ! randbelow (length ms)) \<and>
      ms ! randbelow (length ms) \<in> set ms)"
  using mirror_loop_tried_prefix [of net 0 ms f dest fs] mirror_loop_first [of ms net 0 f dest fs]
  by (simp add: mirror_download_file_def get_best_mirror_def)

text \<open>The definitions that an example download unfolds.\<close>

lemmas net_defs = mirror_download_file_def download_remote_def download_local_def
  dead_network_def broken_stream_def makedirs_raises_def rstrip_slash_def lstrip_slash_def
  Let_def split_beta get_best_mirror_def

theorem mirrors_tried_in_list_order_witness:
  "[''https://m1'', ''https://m2''] \<noteq> [] \<and>
   fst (snd (snd (mirror_download_file dead_network [''https://m1'', ''https://m2'']
     ''core.db'' ''/tmp/core.db'' Map.empty))) = [''https://m1'', ''https://m2''] \<and>
   (\<lambda>n. n - 1) (length [''https://m1'', ''https://m2'']) < length [''https://m1'', ''https://m2''] \<and>
   get_best_mirror (\<lambda>n. n - 1) [''https://m1'', ''https://m2''] = Some ''https://m2''"
  using mirrors_tried_in_list_order [of dead_network "[''https://m1'', ''https://m2'']"
      "''core.db''" "''/tmp/core.db''" Map.empty "\<lambda>n. n - 1"]
  by (simp add: net_defs)

text \<open>
  Claim C4 as the specification states it has two runs of the selection choose the
  same mirror for the same list and statistics.  On the list of two mirrors, a run in
  which the random source draws 0 chooses the first and a run in which it draws 1
  chooses the second.
\<close>

theorem get_best_mirror_random_counterexample:
  "(\<lambda>n. 0) (length [''https://m1'', ''https://m2'']) < length [''https://m1'', ''https://m2''] \<and>
   (\<lambda>n. n - 1) (length [''https://m1'', ''https://m2'']) < length [''https://m1'', ''https://m2''] \<and>
   get_best_mirror (\<lambda>n. 0) [''https://m1'', ''https://m2''] = Some ''https://m1'' \<and>
   get_best_mirror (\<lambda>n. n - 1) [''https://m1'', ''https://m2''] = Some ''https://m2'' \<and>
   get_best_mirror (\<lambda>n. 0) [''https://m1'', ''https://m2''] \<noteq>
     get_best_mirror (\<lambda>n. n - 1) [''https://m1'', ''https://m2'']"
  by (simp add: get_best_mirror_def)

section \<open>A download that fails\<close>

text \<open>
  Claim C6 at an input where the code departs from it.  With one mirror whose stream
  breaks off after the bytes \<open>ab\<close>, \<open>MirrorManager.download_file\<close> returns \<open>False\<close>
  and the destination holds the partial file \<open>ab\<close>.
\<close>

theorem mirror_download_leaves_partial_file:
  "\<not> fst (mirror_download_file broken_stream [''https://mirror.example/repo''] ''core.db''
      ''/var/cache/syzygia/core.db'' Map.empty) \<and>
   fst (snd (mirror_download_file broken_stream [''https://mirror.example/repo''] ''core.db''
      ''/var/cache/syzygia/core.db'' Map.empty)) ''/var/cache/syzygia/core.db'' = Some ''ab''"
  by (simp add: net_defs)




end
